theory Spec2Isabelle
  imports Main "HOL-Library.Word"
begin

section \<open>Status codes and byte buffers\<close>

text \<open>
  The firmware passes keys and values as a pointer with a length. A buffer is modelled by
  the list of bytes that start at the pointer; the length travels beside it as the C
  \<open>int\<close> it is.
\<close>

type_synonym byte = "8 word"

type_synonym status_t = int

text \<open>
  Modelled from the spec: the header with the status codes (system/status\_codes.h) is not
  among the sources. The spec names an internal-state error, an invalid-operation error
  and a not-found indication; the numbers are those of the firmware's StatusCode enum.
  Only their sign and their being different from each other are used.
\<close>

definition S_SUCCESS :: status_t where
  "S_SUCCESS = 0"

definition E_INTERNAL :: status_t where
  "E_INTERNAL = - 3"

definition E_DOES_NOT_EXIST :: status_t where
  "E_DOES_NOT_EXIST = - 9"

definition E_INVALID_OPERATION :: status_t where
  "E_INVALID_OPERATION = - 10"

text \<open>Modelled from the spec: the macro \<open>FAILED\<close> of the same header, true of the error codes.\<close>

definition FAILED :: "status_t \<Rightarrow> bool" where
  "FAILED status = (status < 0)"

text \<open>A string literal of the C source as the bytes it occupies, NUL terminator included.\<close>

definition c_string :: "string \<Rightarrow> byte list" where
  "c_string s = map of_char s @ [0]"

text \<open>\<open>strlen\<close>: the number of bytes before the first NUL.\<close>

definition strlen :: "byte list \<Rightarrow> nat" where
  "strlen s = length (takeWhile (\<lambda>b. b \<noteq> 0) s)"

text \<open>
  \<open>memcmp s1 s2 n\<close>: 0 when the first \<open>n\<close> bytes agree, otherwise the difference of the
  first pair of bytes that differ. Reading past the end of a buffer is undefined in C; the
  model answers with a mismatch there, so a buffer shorter than \<open>n\<close> never compares equal.
\<close>

fun memcmp :: "byte list \<Rightarrow> byte list \<Rightarrow> nat \<Rightarrow> int" where
  "memcmp s1 s2 0 = 0"
| "memcmp (a # s1) (b # s2) (Suc n) =
     (if a = b then memcmp s1 s2 n else int (unat a) - int (unat b))"
| "memcmp s1 s2 (Suc n) = 1"

section \<open>The whitelist (settings\_blob\_db.c)\<close>

text \<open>
  \<open>s_syncable_settings\<close>, in the order of the source. The two activity names are compiled
  in only when \<open>CAPABILITY_HAS_HEALTH_TRACKING\<close> is set; the flag is a parameter.
\<close>

definition s_syncable_settings :: "bool \<Rightarrow> string list" where
  "s_syncable_settings has_health_tracking =
     [''clock24h'', ''timezoneSource'', ''automaticTimezoneID'',
      ''unitsDistance'', ''textStyle'',
      ''lightEnabled'', ''lightAmbientSensorEnabled'', ''lightTimeoutMs'',
      ''lightIntensity'', ''lightMotion'', ''lightAmbientThreshold'',
      ''langEnglish'',
      ''watchface'', ''qlUp'', ''qlDown'', ''qlSelect'', ''qlBack'', ''qlSetupOpened'']
     @ (if has_health_tracking
        then [''activityPreferences'', ''activityHealthAppOpened''] else [])
     @ [''workerId'']"

text \<open>
  The loop of \<open>prv_is_syncable\<close> over the remaining whitelist entries: the first entry
  whose length with its terminator equals \<open>key_len\<close> and whose bytes equal the key's
  answers true; running out of entries answers false.
\<close>

fun prv_is_syncable_loop :: "string list \<Rightarrow> byte list \<Rightarrow> int \<Rightarrow> bool" where
  "prv_is_syncable_loop [] key key_len = False"
| "prv_is_syncable_loop (syncable_key # rest) key key_len =
     (let syncable_len = int (strlen (c_string syncable_key) + 1) in
      if key_len = syncable_len \<and> memcmp key (c_string syncable_key) (nat key_len) = 0
      then True
      else prv_is_syncable_loop rest key key_len)"

definition prv_is_syncable :: "bool \<Rightarrow> byte list \<Rightarrow> int \<Rightarrow> bool" where
  "prv_is_syncable has_health_tracking key key_len =
     prv_is_syncable_loop (s_syncable_settings has_health_tracking) key key_len"

section \<open>The record store interface\<close>

text \<open>
  One record as the iteration of the record store shows it to a visitor
  (\<open>SettingsRecordInfo\<close>): the dirty flag, the time of the last modification and the key.
  \<open>info_key\<close> holds the bytes that \<open>get_key\<close> copies into the caller's buffer, and
  \<open>key_len\<close> is their number. The visitors read the key into a buffer of
  \<open>SETTINGS_KEY_MAX_LEN\<close> bytes; the settings file holds no longer key.
\<close>

record SettingsRecordInfo =
  info_last_modified :: "32 word"
  info_key :: "byte list"
  info_dirty :: bool

definition info_key_len :: "SettingsRecordInfo \<Rightarrow> int" where
  "info_key_len info = int (length (info_key info))"

text \<open>\<open>info->get_key(file, key_buf, n)\<close>: the first \<open>n\<close> bytes of the buffer afterwards.\<close>

definition get_key :: "SettingsRecordInfo \<Rightarrow> int \<Rightarrow> byte list" where
  "get_key info n = take (nat n) (info_key info)"

text \<open>
  The settings file (services/normal/settings/settings\_file.c) is not among the sources.
  The adapter is therefore written against an arbitrary implementation of it: \<open>'fs\<close> is
  the state of the flash file together with the handle, and every operation returns its
  status and the state it leaves. \<open>settings_file_open\<close> stands for the call with the fixed
  arguments \<open>SHELL_PREFS_FILE_NAME\<close> and \<open>SHELL_PREFS_FILE_LEN\<close>. \<open>settings_file_get\<close>
  takes the old contents of \<open>val_out\<close> and returns the new ones.
  \<open>settings_file_records\<close> lists the records an iteration visits, in its order; the
  iteration leaves the file as it is.
\<close>

record 'fs settings_file_env =
  CAPABILITY_HAS_HEALTH_TRACKING :: bool
  settings_file_open :: "'fs \<Rightarrow> status_t \<times> 'fs"
  settings_file_close :: "'fs \<Rightarrow> 'fs"
  settings_file_set :: "byte list \<Rightarrow> int \<Rightarrow> byte list \<Rightarrow> int \<Rightarrow> 'fs \<Rightarrow> status_t \<times> 'fs"
  settings_file_get_len :: "byte list \<Rightarrow> int \<Rightarrow> 'fs \<Rightarrow> int \<times> 'fs"
  settings_file_get ::
    "byte list \<Rightarrow> int \<Rightarrow> byte list \<Rightarrow> int \<Rightarrow> 'fs \<Rightarrow> (status_t \<times> byte list) \<times> 'fs"
  settings_file_delete :: "byte list \<Rightarrow> int \<Rightarrow> 'fs \<Rightarrow> status_t \<times> 'fs"
  settings_file_mark_synced :: "byte list \<Rightarrow> int \<Rightarrow> 'fs \<Rightarrow> status_t \<times> 'fs"
  settings_file_records :: "'fs \<Rightarrow> SettingsRecordInfo list"

text \<open>
  Modelled from the spec: \<open>settings_file_each\<close> is missing with the settings file. The
  spec gives \<open>for_each(handle, visitor(record_info) -> continue: bool)\<close>, an iteration
  that visits every record with its metadata: the visitor is called on the records in
  order, with the context it updates, until it answers false.
\<close>

fun settings_file_each ::
  "(SettingsRecordInfo \<Rightarrow> 'c \<Rightarrow> bool \<times> 'c) \<Rightarrow> 'c \<Rightarrow> SettingsRecordInfo list \<Rightarrow> 'c" where
  "settings_file_each cb ctx [] = ctx"
| "settings_file_each cb ctx (info # rest) =
     (case cb info ctx of
        (continue, ctx') \<Rightarrow> if continue then settings_file_each cb ctx' rest else ctx')"

section \<open>The synchronized record store (settings\_blob\_db.c)\<close>

text \<open>
  The state: the flag \<open>s_initialized\<close> and the settings file. Calls of \<open>PBL_LOG\<close> write
  to the debug log only and are left out.
\<close>

record 'fs blob_db_state =
  s_initialized :: bool
  fs :: 'fs

definition settings_blob_db_init :: "'fs blob_db_state \<Rightarrow> 'fs blob_db_state" where
  "settings_blob_db_init st =
     (if s_initialized st then st else st\<lparr>s_initialized := True\<rparr>)"

text \<open>
  Before it rejects a key, insert copies it into \<open>char key_str[128]\<close> for the log line.
  \<open>copy_len\<close> is \<open>key_len\<close> when that is positive and below the size of the buffer, and
  the size less one otherwise, so also when \<open>key_len\<close> is zero or negative; \<open>memcpy\<close> then
  reads \<open>copy_len\<close> bytes of the key. Where the key's buffer holds fewer bytes the read is
  out of bounds and the behaviour of the C program undefined: the model stops there with a
  fault instead of a status. \<open>key_str\<close> itself goes to the log only.
\<close>

datatype fault = Out_Of_Bounds_Read

definition sizeof_key_str :: nat where
  "sizeof_key_str = 128"

definition settings_blob_db_insert ::
  "'fs settings_file_env \<Rightarrow> byte list \<Rightarrow> int \<Rightarrow> byte list \<Rightarrow> int \<Rightarrow> 'fs blob_db_state
     \<Rightarrow> fault + status_t \<times> 'fs blob_db_state" where
  "settings_blob_db_insert env key key_len val val_len st =
     (if \<not> s_initialized st then Inr (E_INTERNAL, st)
      else if \<not> prv_is_syncable (CAPABILITY_HAS_HEALTH_TRACKING env) key key_len
      then
        (let copy_len = (if key_len > 0 \<and> nat key_len < sizeof_key_str
                         then nat key_len else sizeof_key_str - 1)
         in if length key < copy_len then Inl Out_Of_Bounds_Read
            else Inr (E_INVALID_OPERATION, st))
      else
        (case settings_file_open env (fs st) of
           (status, file) \<Rightarrow>
             if FAILED status then Inr (status, st\<lparr>fs := file\<rparr>)
             else
               (case settings_file_set env key key_len val val_len file of
                  (status, file) \<Rightarrow>
                    Inr (status, st\<lparr>fs := settings_file_close env file\<rparr>))))"

definition settings_blob_db_get_len ::
  "'fs settings_file_env \<Rightarrow> byte list \<Rightarrow> int \<Rightarrow> 'fs blob_db_state
     \<Rightarrow> int \<times> 'fs blob_db_state" where
  "settings_blob_db_get_len env key key_len st =
     (if \<not> s_initialized st then (E_INTERNAL, st)
      else
        (case settings_file_open env (fs st) of
           (status, file) \<Rightarrow>
             if FAILED status then (status, st\<lparr>fs := file\<rparr>)
             else
               (case settings_file_get_len env key key_len file of
                  (len, file) \<Rightarrow> (len, st\<lparr>fs := settings_file_close env file\<rparr>))))"

text \<open>\<open>val_out\<close> is the buffer before the call; the second component is the buffer after it.\<close>

definition settings_blob_db_read ::
  "'fs settings_file_env \<Rightarrow> byte list \<Rightarrow> int \<Rightarrow> byte list \<Rightarrow> int \<Rightarrow> 'fs blob_db_state
     \<Rightarrow> status_t \<times> byte list \<times> 'fs blob_db_state" where
  "settings_blob_db_read env key key_len val_out val_len st =
     (if \<not> s_initialized st then (E_INTERNAL, val_out, st)
      else
        (case settings_file_open env (fs st) of
           (status, file) \<Rightarrow>
             if FAILED status then (status, val_out, st\<lparr>fs := file\<rparr>)
             else
               (case settings_file_get env key key_len val_out val_len file of
                  ((status, val_out), file) \<Rightarrow>
                    (status, val_out, st\<lparr>fs := settings_file_close env file\<rparr>))))"

definition settings_blob_db_delete ::
  "'fs settings_file_env \<Rightarrow> byte list \<Rightarrow> int \<Rightarrow> 'fs blob_db_state
     \<Rightarrow> status_t \<times> 'fs blob_db_state" where
  "settings_blob_db_delete env key key_len st =
     (if \<not> s_initialized st then (E_INTERNAL, st)
      else if \<not> prv_is_syncable (CAPABILITY_HAS_HEALTH_TRACKING env) key key_len
      then (E_INVALID_OPERATION, st)
      else
        (case settings_file_open env (fs st) of
           (status, file) \<Rightarrow>
             if FAILED status then (status, st\<lparr>fs := file\<rparr>)
             else
               (case settings_file_delete env key key_len file of
                  (status, file) \<Rightarrow> (status, st\<lparr>fs := settings_file_close env file\<rparr>))))"

subsection \<open>The dirty list\<close>

text \<open>
  \<open>BlobDBDirtyItem\<close>: the list node is the position in the HOL list. \<open>last_updated\<close> is a
  \<open>time_t\<close>; the cast from the record's 32-bit time keeps its bits.
\<close>

record BlobDBDirtyItem =
  item_last_updated :: "32 word"
  item_key_len :: int
  item_key :: "byte list"

text \<open>
  \<open>BuildDirtyListContext\<close>: \<open>dirty_list\<close> is the chain of items from the head, empty for
  \<open>NULL\<close>; \<open>dirty_list_tail\<close> points at its last item.
\<close>

record BuildDirtyListContext =
  dirty_list :: "BlobDBDirtyItem list"

text \<open>
  \<open>kernel_malloc_check\<close> does not return without memory, so the allocation has no failing
  branch. A first item becomes head and tail; a later one is linked behind the tail.
\<close>

definition prv_build_dirty_list_callback ::
  "bool \<Rightarrow> SettingsRecordInfo \<Rightarrow> BuildDirtyListContext \<Rightarrow> bool \<times> BuildDirtyListContext" where
  "prv_build_dirty_list_callback has_health_tracking info ctx =
     (if \<not> info_dirty info then (True, ctx)
      else
        (let key_buf = get_key info (info_key_len info) in
         if \<not> prv_is_syncable has_health_tracking key_buf (info_key_len info)
         then (True, ctx)
         else
           (let item = \<lparr>item_last_updated = info_last_modified info,
                        item_key_len = info_key_len info,
                        item_key = take (nat (info_key_len info)) key_buf\<rparr>
            in if dirty_list ctx = []
               then (True, ctx\<lparr>dirty_list := [item]\<rparr>)
               else (True, ctx\<lparr>dirty_list := dirty_list ctx @ [item]\<rparr>))))"

text \<open>The result is the head of the list: \<open>[]\<close> is \<open>NULL\<close>.\<close>

definition settings_blob_db_get_dirty_list ::
  "'fs settings_file_env \<Rightarrow> 'fs blob_db_state \<Rightarrow> BlobDBDirtyItem list \<times> 'fs blob_db_state" where
  "settings_blob_db_get_dirty_list env st =
     (if \<not> s_initialized st then ([], st)
      else
        (case settings_file_open env (fs st) of
           (status, file) \<Rightarrow>
             if FAILED status then ([], st\<lparr>fs := file\<rparr>)
             else
               (let ctx = settings_file_each
                            (prv_build_dirty_list_callback (CAPABILITY_HAS_HEALTH_TRACKING env))
                            \<lparr>dirty_list = []\<rparr> (settings_file_records env file)
                in (dirty_list ctx, st\<lparr>fs := settings_file_close env file\<rparr>))))"

definition settings_blob_db_mark_synced ::
  "'fs settings_file_env \<Rightarrow> byte list \<Rightarrow> int \<Rightarrow> 'fs blob_db_state
     \<Rightarrow> status_t \<times> 'fs blob_db_state" where
  "settings_blob_db_mark_synced env key key_len st =
     (if \<not> s_initialized st then (E_INTERNAL, st)
      else
        (case settings_file_open env (fs st) of
           (status, file) \<Rightarrow>
             if FAILED status then (status, st\<lparr>fs := file\<rparr>)
             else
               (case settings_file_mark_synced env key key_len file of
                  (status, file) \<Rightarrow> (status, st\<lparr>fs := settings_file_close env file\<rparr>))))"

record IsDirtyContext =
  found_dirty :: bool

definition is_dirty_callback ::
  "bool \<Rightarrow> SettingsRecordInfo \<Rightarrow> IsDirtyContext \<Rightarrow> bool \<times> IsDirtyContext" where
  "is_dirty_callback has_health_tracking info ctx =
     (if \<not> info_dirty info then (True, ctx)
      else
        (let key_buf = get_key info (info_key_len info) in
         if prv_is_syncable has_health_tracking key_buf (info_key_len info)
         then (False, ctx\<lparr>found_dirty := True\<rparr>)
         else (True, ctx)))"

text \<open>
  \<open>is_dirty_out\<close> is the caller's variable before the call; the second component is the
  variable after it.
\<close>

definition settings_blob_db_is_dirty ::
  "'fs settings_file_env \<Rightarrow> bool \<Rightarrow> 'fs blob_db_state \<Rightarrow> status_t \<times> bool \<times> 'fs blob_db_state" where
  "settings_blob_db_is_dirty env is_dirty_out st =
     (if \<not> s_initialized st then (E_INTERNAL, is_dirty_out, st)
      else
        (case settings_file_open env (fs st) of
           (status, file) \<Rightarrow>
             if FAILED status then (status, is_dirty_out, st\<lparr>fs := file\<rparr>)
             else
               (let ctx = settings_file_each
                            (is_dirty_callback (CAPABILITY_HAS_HEALTH_TRACKING env))
                            \<lparr>found_dirty = False\<rparr> (settings_file_records env file)
                in (S_SUCCESS, found_dirty ctx, st\<lparr>fs := settings_file_close env file\<rparr>))))"

definition settings_blob_db_flush :: "'fs blob_db_state \<Rightarrow> status_t \<times> 'fs blob_db_state" where
  "settings_blob_db_flush st =
     (if \<not> s_initialized st then (E_INTERNAL, st) else (S_SUCCESS, st))"

section \<open>A record store modelled from the spec\<close>

text \<open>
  Modelled from the spec: the settings file itself is missing; this is the Record Store of
  the spec's data model and external interfaces, used where a claim depends on what the
  store does. A record is (key, value bytes, last-modified timestamp, dirty flag); the
  dirty flag is set by any local write and cleared only by mark-synced; a record is
  created on first insert, replaced on a later one (timestamp refreshed, dirty set) and
  removed on delete. The iteration visits every record. \<open>store_open_status\<close> is what an
  open answers, \<open>store_time\<close> the clock a write stamps a record with, and the two counters
  count the calls of open and close.
\<close>

record settings_record =
  rec_key :: "byte list"
  rec_val :: "byte list"
  rec_last_modified :: "32 word"
  rec_dirty :: bool

record record_store =
  store_records :: "settings_record list"
  store_open_status :: status_t
  store_time :: "32 word"
  store_opens :: nat
  store_closes :: nat

definition store_open :: "record_store \<Rightarrow> status_t \<times> record_store" where
  "store_open s = (store_open_status s, s\<lparr>store_opens := store_opens s + 1\<rparr>)"

definition store_close :: "record_store \<Rightarrow> record_store" where
  "store_close s = s\<lparr>store_closes := store_closes s + 1\<rparr>"

definition store_find :: "byte list \<Rightarrow> record_store \<Rightarrow> settings_record option" where
  "store_find k s = find (\<lambda>r. rec_key r = k) (store_records s)"

fun upsert :: "settings_record \<Rightarrow> settings_record list \<Rightarrow> settings_record list" where
  "upsert r [] = [r]"
| "upsert r (x # xs) = (if rec_key x = rec_key r then r # xs else x # upsert r xs)"

definition store_set ::
  "byte list \<Rightarrow> int \<Rightarrow> byte list \<Rightarrow> int \<Rightarrow> record_store \<Rightarrow> status_t \<times> record_store" where
  "store_set key key_len val val_len s =
     (let r = \<lparr>rec_key = take (nat key_len) key, rec_val = take (nat val_len) val,
               rec_last_modified = store_time s, rec_dirty = True\<rparr>
      in (S_SUCCESS, s\<lparr>store_records := upsert r (store_records s)\<rparr>))"

definition store_get_len :: "byte list \<Rightarrow> int \<Rightarrow> record_store \<Rightarrow> int \<times> record_store" where
  "store_get_len key key_len s =
     (case store_find (take (nat key_len) key) s of
        None \<Rightarrow> (E_DOES_NOT_EXIST, s)
      | Some r \<Rightarrow> (int (length (rec_val r)), s))"

text \<open>A read delivers the first \<open>val_len\<close> bytes of the value; a miss leaves the buffer.\<close>

definition store_get ::
  "byte list \<Rightarrow> int \<Rightarrow> byte list \<Rightarrow> int \<Rightarrow> record_store
     \<Rightarrow> (status_t \<times> byte list) \<times> record_store" where
  "store_get key key_len val_out val_len s =
     (case store_find (take (nat key_len) key) s of
        None \<Rightarrow> ((E_DOES_NOT_EXIST, val_out), s)
      | Some r \<Rightarrow> ((S_SUCCESS, take (nat val_len) (rec_val r)), s))"

text \<open>The spec does not say what deleting an absent key answers; here it is a miss.\<close>

definition store_delete :: "byte list \<Rightarrow> int \<Rightarrow> record_store \<Rightarrow> status_t \<times> record_store" where
  "store_delete key key_len s =
     (case store_find (take (nat key_len) key) s of
        None \<Rightarrow> (E_DOES_NOT_EXIST, s)
      | Some r \<Rightarrow>
          (S_SUCCESS,
           s\<lparr>store_records :=
               filter (\<lambda>x. rec_key x \<noteq> take (nat key_len) key) (store_records s)\<rparr>))"

definition store_mark_synced ::
  "byte list \<Rightarrow> int \<Rightarrow> record_store \<Rightarrow> status_t \<times> record_store" where
  "store_mark_synced key key_len s =
     (case store_find (take (nat key_len) key) s of
        None \<Rightarrow> (E_DOES_NOT_EXIST, s)
      | Some r \<Rightarrow>
          (S_SUCCESS,
           s\<lparr>store_records :=
               map (\<lambda>x. if rec_key x = take (nat key_len) key then x\<lparr>rec_dirty := False\<rparr> else x)
                 (store_records s)\<rparr>))"

definition record_info :: "settings_record \<Rightarrow> SettingsRecordInfo" where
  "record_info r =
     \<lparr>info_last_modified = rec_last_modified r, info_key = rec_key r, info_dirty = rec_dirty r\<rparr>"

definition store_infos :: "record_store \<Rightarrow> SettingsRecordInfo list" where
  "store_infos s = map record_info (store_records s)"

definition store_env :: "bool \<Rightarrow> record_store settings_file_env" where
  "store_env has_health_tracking =
     \<lparr>CAPABILITY_HAS_HEALTH_TRACKING = has_health_tracking,
      settings_file_open = store_open,
      settings_file_close = store_close,
      settings_file_set = store_set,
      settings_file_get_len = store_get_len,
      settings_file_get = store_get,
      settings_file_delete = store_delete,
      settings_file_mark_synced = store_mark_synced,
      settings_file_records = store_infos\<rparr>"

text \<open>A store is well formed when no two of its records have the same key.\<close>

definition store_wf :: "record_store \<Rightarrow> bool" where
  "store_wf s = distinct (map rec_key (store_records s))"

section \<open>The sync coordinator (prefs\_sync.c)\<close>

text \<open>
  The Sync Engine (\<open>blob_db_sync_db\<close>) is not among the sources; it is a parameter. \<open>'w\<close>
  is everything a call of it can read or change: its own state and the record store with
  the dirty flags. The handler and the trigger use the status only to choose a log line,
  and the log is left out, so the status is dropped. \<open>s_event_subscribed\<close> says whether
  \<open>s_event_info\<close> is subscribed to the debounced connection events.
\<close>

type_synonym BlobDBId = "8 word"

definition BlobDBIdSettings :: BlobDBId where
  "BlobDBIdSettings = 0x0F"

record PebbleEvent =
  is_open :: bool

record 'w prefs_sync_state =
  s_sync_initialized :: bool
  s_is_connected :: bool
  s_event_subscribed :: bool
  sync_world :: 'w

definition prv_connection_handler ::
  "(BlobDBId \<Rightarrow> 'w \<Rightarrow> status_t \<times> 'w) \<Rightarrow> PebbleEvent \<Rightarrow> 'w prefs_sync_state
     \<Rightarrow> 'w prefs_sync_state" where
  "prv_connection_handler blob_db_sync_db event st =
     (let connected = is_open event;
          st = st\<lparr>s_is_connected := connected\<rparr>
      in if connected
         then (case blob_db_sync_db BlobDBIdSettings (sync_world st) of
                 (status, w) \<Rightarrow> st\<lparr>sync_world := w\<rparr>)
         else st)"

definition prefs_sync_init :: "'w prefs_sync_state \<Rightarrow> 'w prefs_sync_state" where
  "prefs_sync_init st =
     (if s_sync_initialized st then st
      else st\<lparr>s_event_subscribed := True, s_is_connected := False,
              s_sync_initialized := True\<rparr>)"

definition prefs_sync_deinit :: "'w prefs_sync_state \<Rightarrow> 'w prefs_sync_state" where
  "prefs_sync_deinit st =
     (if \<not> s_sync_initialized st then st
      else st\<lparr>s_event_subscribed := False, s_sync_initialized := False,
              s_is_connected := False\<rparr>)"

definition prefs_sync_trigger ::
  "(BlobDBId \<Rightarrow> 'w \<Rightarrow> status_t \<times> 'w) \<Rightarrow> 'w prefs_sync_state \<Rightarrow> 'w prefs_sync_state" where
  "prefs_sync_trigger blob_db_sync_db st =
     (if \<not> s_sync_initialized st then st
      else if \<not> s_is_connected st then st
      else (case blob_db_sync_db BlobDBIdSettings (sync_world st) of
              (status, w) \<Rightarrow> st\<lparr>sync_world := w\<rparr>))"

text \<open>
  Modelled from the spec: the event source delivers the debounced connection events, one
  after the other, to a registered handler. The handler runs while \<open>s_event_info\<close> is
  subscribed.
\<close>

fun deliver_events ::
  "(BlobDBId \<Rightarrow> 'w \<Rightarrow> status_t \<times> 'w) \<Rightarrow> PebbleEvent list \<Rightarrow> 'w prefs_sync_state
     \<Rightarrow> 'w prefs_sync_state" where
  "deliver_events blob_db_sync_db [] st = st"
| "deliver_events blob_db_sync_db (event # events) st =
     deliver_events blob_db_sync_db events
       (if s_event_subscribed st then prv_connection_handler blob_db_sync_db event st else st)"

text \<open>
  A Sync Engine for tests: it answers \<open>result\<close> and appends the store id it was called for
  to the list of calls, which is its whole world.
\<close>

definition recording_sync_db :: "status_t \<Rightarrow> BlobDBId \<Rightarrow> BlobDBId list \<Rightarrow> status_t \<times> BlobDBId list" where
  "recording_sync_db result db_id calls = (result, calls @ [db_id])"

text \<open>
  A visitor for tests: it counts its calls beside the context of the visitor it wraps.
\<close>

definition counting ::
  "(SettingsRecordInfo \<Rightarrow> 'c \<Rightarrow> bool \<times> 'c) \<Rightarrow> SettingsRecordInfo \<Rightarrow> nat \<times> 'c \<Rightarrow> bool \<times> nat \<times> 'c" where
  "counting cb info nc =
     (case cb info (snd nc) of (continue, ctx') \<Rightarrow> (continue, Suc (fst nc), ctx'))"

section \<open>The properties in the spec's words\<close>

text \<open>
  A record that is simultaneously dirty and whitelisted: its dirty flag is set and its key,
  with its own length, passes the whitelist test.
\<close>

definition dirty_whitelisted :: "bool \<Rightarrow> SettingsRecordInfo \<Rightarrow> bool" where
  "dirty_whitelisted has_health_tracking info =
     (info_dirty info \<and> prv_is_syncable has_health_tracking (info_key info) (info_key_len info))"

text \<open>
  The Dirty Item of a record: a copy of the key, with its length, and the record's
  last-modified time.
\<close>

definition dirty_item_of :: "SettingsRecordInfo \<Rightarrow> BlobDBDirtyItem" where
  "dirty_item_of info =
     \<lparr>item_last_updated = info_last_modified info, item_key_len = info_key_len info,
      item_key = info_key info\<rparr>"

section \<open>Stores and keys for the examples\<close>

definition empty_store :: record_store where
  "empty_store =
     \<lparr>store_records = [], store_open_status = 0, store_time = 0,
      store_opens = 0, store_closes = 0\<rparr>"

text \<open>
  Four records: a dirty one outside the whitelist first, then a dirty whitelisted one, a
  clean whitelisted one and a second dirty whitelisted one.
\<close>

definition sample_records :: "settings_record list" where
  "sample_records =
     [\<lparr>rec_key = c_string ''btAddress'', rec_val = [1, 2, 3], rec_last_modified = 5,
        rec_dirty = True\<rparr>,
      \<lparr>rec_key = c_string ''clock24h'', rec_val = [1], rec_last_modified = 7,
        rec_dirty = True\<rparr>,
      \<lparr>rec_key = c_string ''textStyle'', rec_val = [2], rec_last_modified = 9,
        rec_dirty = False\<rparr>,
      \<lparr>rec_key = c_string ''watchface'', rec_val = [4, 4], rec_last_modified = 11,
        rec_dirty = True\<rparr>]"

definition sample_store :: record_store where
  "sample_store = empty_store\<lparr>store_records := sample_records, store_time := 20\<rparr>"

text \<open>The same store when opening it fails with \<open>status\<close>.\<close>

definition broken_store :: "status_t \<Rightarrow> record_store" where
  "broken_store status = sample_store\<lparr>store_open_status := status\<rparr>"

text \<open>The store after \<open>clock24h\<close> has been inserted into the empty one.\<close>

definition clock24h_record :: settings_record where
  "clock24h_record =
     \<lparr>rec_key = c_string ''clock24h'', rec_val = [1], rec_last_modified = 0, rec_dirty = True\<rparr>"

definition after_insert :: "record_store blob_db_state" where
  "after_insert =
     \<lparr>s_initialized = True,
      fs = empty_store\<lparr>store_records := [clock24h_record], store_opens := 1, store_closes := 1\<rparr>\<rparr>"

text \<open>
  Three states of the sync coordinator, with the recording engine's list of calls empty:
  before \<open>prefs_sync_init\<close>, initialized and disconnected, initialized and connected.
\<close>

definition uninitialized_state :: "BlobDBId list prefs_sync_state" where
  "uninitialized_state =
     \<lparr>s_sync_initialized = False, s_is_connected = False, s_event_subscribed = False,
      sync_world = []\<rparr>"

definition disconnected_state :: "BlobDBId list prefs_sync_state" where
  "disconnected_state =
     \<lparr>s_sync_initialized = True, s_is_connected = False, s_event_subscribed = True,
      sync_world = []\<rparr>"

definition connected_state :: "BlobDBId list prefs_sync_state" where
  "connected_state =
     \<lparr>s_sync_initialized = True, s_is_connected = True, s_event_subscribed = True,
      sync_world = []\<rparr>"

section \<open>The whitelist test\<close>

lemma byte_difference_0:
  "int (unat a) - int (unat b) = 0 \<longleftrightarrow> a = b"
  using word_unat_eq_iff [of a b] by linarith

lemma memcmp_eq_0_iff:
  "memcmp s1 s2 n = 0 \<longleftrightarrow> n \<le> length s1 \<and> n \<le> length s2 \<and> take n s1 = take n s2"
  by (induction s1 s2 n rule: memcmp.induct) (auto simp only: memcmp.simps byte_difference_0
      le0 take_0 length_Cons Suc_le_mono take_Suc_Cons list.inject list.size not_less_eq_eq
      split: if_splits)

lemma strlen_c_string:
  "(0::byte) \<notin> of_char ` set name \<Longrightarrow> strlen (c_string name) = length name"
  by (induction name) (auto simp: strlen_def c_string_def)

lemma whitelist_no_nul:
  "name \<in> set (s_syncable_settings h) \<Longrightarrow> (0::byte) \<notin> of_char ` set name"
  by (auto simp: s_syncable_settings_def split: if_splits)

lemma prv_is_syncable_loop_iff:
  assumes "\<forall>name \<in> set names. (0::byte) \<notin> of_char ` set name"
  shows "prv_is_syncable_loop names key key_len \<longleftrightarrow>
     (\<exists>name \<in> set names. key_len = int (length name) + 1 \<and>
        length name < length key \<and> take (length name + 1) key = c_string name)"
  using assms
proof (induction names)
  case Nil
  show ?case by simp
next
  case (Cons a names)
  have len: "strlen (c_string a) = length a"
    using Cons.prems by (simp add: strlen_c_string)
  have "length (c_string a) = length a + 1"
    by (simp add: c_string_def)
  then show ?case using Cons
    by (auto simp: len memcmp_eq_0_iff Let_def nat_add_distrib)
qed

text \<open>
  A key is syncable exactly when its first \<open>key_len\<close> bytes are a whitelisted name with
  its terminator.
\<close>

lemma prv_is_syncable_iff:
  "prv_is_syncable h key key_len \<longleftrightarrow>
     (\<exists>name \<in> set (s_syncable_settings h). key_len = int (length name) + 1 \<and>
        length name < length key \<and> take (length name + 1) key = c_string name)"
  unfolding prv_is_syncable_def
  by (rule prv_is_syncable_loop_iff) (simp add: whitelist_no_nul)

lemma name_with_nul_syncable:
  "name \<in> set (s_syncable_settings h) \<Longrightarrow>
   prv_is_syncable h (c_string name) (int (length name) + 1)"
  unfolding prv_is_syncable_iff
  by (rule bexI [where x = name]) (simp_all add: c_string_def)

lemma name_without_nul_not_syncable:
  assumes "name \<in> set (s_syncable_settings h)"
  shows "\<not> prv_is_syncable h (map of_char name @ rest) (int (length name))"
proof
  assume "prv_is_syncable h (map of_char name @ rest) (int (length name))"
  then obtain name' where n': "name' \<in> set (s_syncable_settings h)"
    and len: "int (length name) = int (length name') + 1"
    and eq: "take (length name' + 1) (map of_char name @ rest) = c_string name'"
    unfolding prv_is_syncable_iff by blast
  from len have l: "length name' + 1 = length name" by linarith
  have "take (length name' + 1) (map of_char name @ rest) = (map of_char name :: byte list)"
    unfolding l by simp
  with eq have "(map of_char name :: byte list) = map of_char name' @ [0]"
    by (simp add: c_string_def)
  then have "(0::byte) \<in> set (map of_char name)" by simp
  with whitelist_no_nul [OF assms] show False by simp
qed

lemma syncable_take:
  assumes "prv_is_syncable h key key_len"
  shows "prv_is_syncable h (take (nat key_len) key) (int (length (take (nat key_len) key)))"
    and "int (length (take (nat key_len) key)) = key_len"
proof -
  from assms obtain name where n: "name \<in> set (s_syncable_settings h)"
    and len: "key_len = int (length name) + 1"
    and lt: "length name < length key"
    and eq: "take (length name + 1) key = c_string name"
    unfolding prv_is_syncable_iff by blast
  have k: "nat key_len = length name + 1" using len by simp
  have tk: "take (nat key_len) key = c_string name" unfolding k by (rule eq)
  have l: "int (length (c_string name)) = int (length name) + 1" by (simp add: c_string_def)
  show "prv_is_syncable h (take (nat key_len) key) (int (length (take (nat key_len) key)))"
    unfolding tk l using n by (rule name_with_nul_syncable)
  show "int (length (take (nat key_len) key)) = key_len"
    unfolding tk l using len by simp
qed

lemma btAddress_not_syncable:
  "\<not> prv_is_syncable h (c_string ''btAddress'') 10"
  by (auto simp: prv_is_syncable_iff s_syncable_settings_def c_string_def)

lemma clock24h_syncable: "prv_is_syncable h (c_string ''clock24h'') 9"
  using name_with_nul_syncable [of "''clock24h''" h] by (simp add: s_syncable_settings_def)

lemma watchface_syncable: "prv_is_syncable h (c_string ''watchface'') 10"
  using name_with_nul_syncable [of "''watchface''" h] by (simp add: s_syncable_settings_def)

lemma whitelist_name_length:
  "name \<in> set (s_syncable_settings h) \<Longrightarrow> 0 < length name \<and> length name < 128"
  by (auto simp: s_syncable_settings_def split: if_splits)

text \<open>
  What insert does with a key it rejects: the copy for the log line is in bounds when the
  buffer holds \<open>copy_len\<close> bytes, and every buffer that holds the \<open>key_len\<close> bytes of a
  key of positive length does.
\<close>

lemma insert_rejected:
  assumes "s_initialized st"
    and "\<not> prv_is_syncable (CAPABILITY_HAS_HEALTH_TRACKING env) key key_len"
  shows "settings_blob_db_insert env key key_len val val_len st =
           (if length key < (if 0 < key_len \<and> nat key_len < 128 then nat key_len else 127)
            then Inl Out_Of_Bounds_Read else Inr (E_INVALID_OPERATION, st))"
  using assms by (simp add: settings_blob_db_insert_def sizeof_key_str_def)

lemma insert_rejected_in_bounds:
  assumes "s_initialized st"
    and "\<not> prv_is_syncable (CAPABILITY_HAS_HEALTH_TRACKING env) key key_len"
    and "0 < key_len" and "nat key_len \<le> length key"
  shows "settings_blob_db_insert env key key_len val val_len st = Inr (E_INVALID_OPERATION, st)"
  using assms by (auto simp: insert_rejected)

text \<open>
  C10. The whitelist test compares \<open>key_len\<close> with the length of a whitelisted name
  counted with its NUL terminator. The bytes of a whitelisted name passed with the
  terminator counted are syncable. The same bytes passed with \<open>key_len = strlen(name)\<close>,
  whatever follows them in the buffer, are not, and on an initialized store insert and
  delete answer such a key with the invalid-operation error and leave the state as it was.
\<close>

theorem key_len_counts_terminator:
  assumes "name \<in> set (s_syncable_settings (CAPABILITY_HAS_HEALTH_TRACKING env))"
    and "s_initialized st"
  shows "prv_is_syncable (CAPABILITY_HAS_HEALTH_TRACKING env) (c_string name)
           (int (strlen (c_string name)) + 1)
       \<and> \<not> prv_is_syncable (CAPABILITY_HAS_HEALTH_TRACKING env) (map of_char name @ rest)
           (int (strlen (c_string name)))
       \<and> settings_blob_db_insert env (map of_char name @ rest) (int (strlen (c_string name)))
           val val_len st = Inr (E_INVALID_OPERATION, st)
       \<and> settings_blob_db_delete env (map of_char name @ rest) (int (strlen (c_string name))) st
           = (E_INVALID_OPERATION, st)"
proof -
  have len: "strlen (c_string name) = length name"
    using assms(1) by (simp add: strlen_c_string whitelist_no_nul)
  have pos: "0 < int (length name)" "nat (int (length name)) \<le> length (map of_char name @ rest)"
    using whitelist_name_length [OF assms(1)] by simp_all
  have yes: "prv_is_syncable (CAPABILITY_HAS_HEALTH_TRACKING env) (c_string name)
               (int (length name) + 1)"
    using assms(1) by (rule name_with_nul_syncable)
  have no: "\<not> prv_is_syncable (CAPABILITY_HAS_HEALTH_TRACKING env) (map of_char name @ rest)
               (int (length name))"
    using assms(1) by (rule name_without_nul_not_syncable)
  have ins: "settings_blob_db_insert env (map of_char name @ rest) (int (length name))
               val val_len st = Inr (E_INVALID_OPERATION, st)"
    using assms(2) no pos by (rule insert_rejected_in_bounds)
  show ?thesis
    using yes no assms(2) ins
    by (simp add: len settings_blob_db_delete_def)
qed

theorem key_len_counts_terminator_witness:
  "''clock24h'' \<in> set (s_syncable_settings (CAPABILITY_HAS_HEALTH_TRACKING (store_env True)))
   \<and> s_initialized \<lparr>s_initialized = True, fs = empty_store\<rparr>
   \<and> prv_is_syncable (CAPABILITY_HAS_HEALTH_TRACKING (store_env True)) (c_string ''clock24h'') 9
   \<and> \<not> prv_is_syncable (CAPABILITY_HAS_HEALTH_TRACKING (store_env True))
         (map of_char ''clock24h'' @ [0]) 8
   \<and> settings_blob_db_insert (store_env True) (map of_char ''clock24h'' @ [0]) 8 [1] 1
        \<lparr>s_initialized = True, fs = empty_store\<rparr>
      = Inr (E_INVALID_OPERATION, \<lparr>s_initialized = True, fs = empty_store\<rparr>)
   \<and> settings_blob_db_delete (store_env True) (map of_char ''clock24h'' @ [0]) 8
        \<lparr>s_initialized = True, fs = empty_store\<rparr>
      = (E_INVALID_OPERATION, \<lparr>s_initialized = True, fs = empty_store\<rparr>)"
proof -
  have a: "''clock24h''
             \<in> set (s_syncable_settings (CAPABILITY_HAS_HEALTH_TRACKING (store_env True)))"
    by (simp add: s_syncable_settings_def store_env_def)
  have b: "s_initialized \<lparr>s_initialized = True, fs = empty_store\<rparr>"
    by simp
  have c: "int (strlen (c_string ''clock24h'')) = 8"
    by (simp add: strlen_def c_string_def)
  have d: "(8::int) + 1 = 9"
    by simp
  note t = key_len_counts_terminator [OF a b, of "[0]" "[1]" 1, unfolded c d]
  show ?thesis using a b t by blast
qed

section \<open>Rejected keys\<close>



text \<open>
  Outside those keys the rejection is not reached safely: an empty key passed with
  \<open>key_len = 0\<close> makes the copy for the log line read 127 bytes that the buffer does not
  hold.
\<close>

lemma insert_empty_key_reads_out_of_bounds:
  "settings_blob_db_insert (store_env True) [] 0 [1] 1
     \<lparr>s_initialized = True, fs = sample_store\<rparr> = Inl Out_Of_Bounds_Read"
proof -
  have "\<not> prv_is_syncable (CAPABILITY_HAS_HEALTH_TRACKING (store_env True)) [] 0"
    by (simp add: prv_is_syncable_iff)
  then show ?thesis
    by (simp add: insert_rejected)
qed

section \<open>Before initialization\<close>

lemma store_env_simps:
  "CAPABILITY_HAS_HEALTH_TRACKING (store_env h) = h"
  "settings_file_open (store_env h) = store_open"
  "settings_file_close (store_env h) = store_close"
  "settings_file_set (store_env h) = store_set"
  "settings_file_get_len (store_env h) = store_get_len"
  "settings_file_get (store_env h) = store_get"
  "settings_file_delete (store_env h) = store_delete"
  "settings_file_mark_synced (store_env h) = store_mark_synced"
  "settings_file_records (store_env h) = store_infos"
  by (simp_all add: store_env_def)

text \<open>
  C8, as amended. Before \<open>settings_blob_db_init\<close>, insert, read, get\_len, delete,
  mark\_synced, is\_dirty and flush answer the internal-state error; get\_dirty\_list answers
  \<open>NULL\<close>, the empty list, its only way to answer; and no operation changes the state or
  the caller's buffers.
\<close>

theorem uninitialized_operations:
  assumes "\<not> s_initialized st"
  shows "settings_blob_db_insert env key key_len val val_len st = Inr (E_INTERNAL, st)
       \<and> settings_blob_db_read env key key_len val_out val_len st = (E_INTERNAL, val_out, st)
       \<and> settings_blob_db_get_len env key key_len st = (E_INTERNAL, st)
       \<and> settings_blob_db_delete env key key_len st = (E_INTERNAL, st)
       \<and> settings_blob_db_mark_synced env key key_len st = (E_INTERNAL, st)
       \<and> settings_blob_db_is_dirty env is_dirty_out st = (E_INTERNAL, is_dirty_out, st)
       \<and> settings_blob_db_flush st = (E_INTERNAL, st)
       \<and> settings_blob_db_get_dirty_list env st = ([], st)"
  using assms
  by (simp add: settings_blob_db_insert_def settings_blob_db_read_def
      settings_blob_db_get_len_def settings_blob_db_delete_def settings_blob_db_mark_synced_def
      settings_blob_db_is_dirty_def settings_blob_db_flush_def settings_blob_db_get_dirty_list_def)

theorem uninitialized_operations_witness:
  "\<not> s_initialized \<lparr>s_initialized = False, fs = sample_store\<rparr>
   \<and> settings_blob_db_insert (store_env True) (c_string ''clock24h'') 9 [1] 1
        \<lparr>s_initialized = False, fs = sample_store\<rparr>
       = Inr (E_INTERNAL, \<lparr>s_initialized = False, fs = sample_store\<rparr>)
   \<and> settings_blob_db_get_dirty_list (store_env True)
        \<lparr>s_initialized = False, fs = sample_store\<rparr>
       = ([], \<lparr>s_initialized = False, fs = sample_store\<rparr>)"
proof -
  have a: "\<not> s_initialized \<lparr>s_initialized = False, fs = sample_store\<rparr>"
    by simp
  show ?thesis
    using a uninitialized_operations [OF a, of "store_env True" "c_string ''clock24h''" 9 "[1]" 1]
    by blast
qed

text \<open>
  C8 as stated fails for get\_dirty\_list: before init its answer is the empty list, the
  answer an initialized store without dirty records gives, and no internal-state error.
\<close>

theorem uninitialized_get_dirty_list_is_empty_list:
  "fst (settings_blob_db_get_dirty_list (store_env True)
          \<lparr>s_initialized = False, fs = empty_store\<rparr>) = []
   \<and> fst (settings_blob_db_get_dirty_list (store_env True)
          \<lparr>s_initialized = True, fs = empty_store\<rparr>) = []"
  by (simp add: settings_blob_db_get_dirty_list_def store_env_simps store_open_def
      empty_store_def FAILED_def store_infos_def)

section \<open>Failures of the settings file\<close>

lemma broken_store_open:
  "settings_file_open (store_env h) (broken_store status)
     = (status, broken_store status\<lparr>store_opens := 1\<rparr>)"
  by (simp add: store_env_simps store_open_def broken_store_def sample_store_def empty_store_def)

lemma empty_store_open:
  "settings_file_open (store_env h) empty_store = (0, empty_store\<lparr>store_opens := 1\<rparr>)"
  by (simp add: store_env_simps store_open_def empty_store_def)

lemma empty_store_infos:
  "settings_file_records (store_env h) (empty_store\<lparr>store_opens := n\<rparr>) = []"
  by (simp add: store_env_simps store_infos_def empty_store_def)

text \<open>
  C4, as amended. On an initialized store an open is tried once. When it fails, insert and
  delete (for a whitelisted key), read, get\_len, mark\_synced and is\_dirty answer the status
  of the open as it is, and the file is left as the failed open left it; get\_dirty\_list
  answers \<open>NULL\<close>, the empty list. When the open succeeds, insert, delete, read, get\_len
  and mark\_synced answer what the one operation on the file answers, and close the file.
\<close>

theorem backing_store_status_returned:
  assumes "s_initialized st"
    and "settings_file_open env (fs st) = (status, file)"
  shows "(FAILED status \<longrightarrow>
           (prv_is_syncable (CAPABILITY_HAS_HEALTH_TRACKING env) key key_len \<longrightarrow>
              settings_blob_db_insert env key key_len val val_len st
                = Inr (status, st\<lparr>fs := file\<rparr>)
            \<and> settings_blob_db_delete env key key_len st = (status, st\<lparr>fs := file\<rparr>))
         \<and> settings_blob_db_read env key key_len val_out val_len st
             = (status, val_out, st\<lparr>fs := file\<rparr>)
         \<and> settings_blob_db_get_len env key key_len st = (status, st\<lparr>fs := file\<rparr>)
         \<and> settings_blob_db_mark_synced env key key_len st = (status, st\<lparr>fs := file\<rparr>)
         \<and> settings_blob_db_is_dirty env is_dirty_out st
             = (status, is_dirty_out, st\<lparr>fs := file\<rparr>)
         \<and> settings_blob_db_get_dirty_list env st = ([], st\<lparr>fs := file\<rparr>))
       \<and> (\<not> FAILED status \<longrightarrow>
           (prv_is_syncable (CAPABILITY_HAS_HEALTH_TRACKING env) key key_len \<longrightarrow>
              settings_blob_db_insert env key key_len val val_len st
                = Inr (fst (settings_file_set env key key_len val val_len file),
                       st\<lparr>fs := settings_file_close env
                                   (snd (settings_file_set env key key_len val val_len file))\<rparr>)
            \<and> settings_blob_db_delete env key key_len st
                = (fst (settings_file_delete env key key_len file),
                   st\<lparr>fs := settings_file_close env
                               (snd (settings_file_delete env key key_len file))\<rparr>))
         \<and> settings_blob_db_read env key key_len val_out val_len st
             = (fst (fst (settings_file_get env key key_len val_out val_len file)),
                snd (fst (settings_file_get env key key_len val_out val_len file)),
                st\<lparr>fs := settings_file_close env
                            (snd (settings_file_get env key key_len val_out val_len file))\<rparr>)
         \<and> settings_blob_db_get_len env key key_len st
             = (fst (settings_file_get_len env key key_len file),
                st\<lparr>fs := settings_file_close env
                            (snd (settings_file_get_len env key key_len file))\<rparr>)
         \<and> settings_blob_db_mark_synced env key key_len st
             = (fst (settings_file_mark_synced env key key_len file),
                st\<lparr>fs := settings_file_close env
                            (snd (settings_file_mark_synced env key key_len file))\<rparr>))"
  using assms
  by (simp add: settings_blob_db_insert_def settings_blob_db_read_def
      settings_blob_db_get_len_def settings_blob_db_delete_def settings_blob_db_mark_synced_def
      settings_blob_db_is_dirty_def settings_blob_db_get_dirty_list_def split_beta)

theorem backing_store_status_returned_witness:
  "s_initialized \<lparr>s_initialized = True, fs = broken_store (- 6)\<rparr>
   \<and> settings_file_open (store_env True) (fs \<lparr>s_initialized = True, fs = broken_store (- 6)\<rparr>)
       = (- 6, broken_store (- 6)\<lparr>store_opens := 1\<rparr>)
   \<and> FAILED (- 6)
   \<and> settings_blob_db_read (store_env True) (c_string ''clock24h'') 9 [0] 1
        \<lparr>s_initialized = True, fs = broken_store (- 6)\<rparr>
       = (- 6, [0], \<lparr>s_initialized = True, fs = broken_store (- 6)\<rparr>
                       \<lparr>fs := broken_store (- 6)\<lparr>store_opens := 1\<rparr>\<rparr>)
   \<and> settings_blob_db_is_dirty (store_env True) False
        \<lparr>s_initialized = True, fs = broken_store (- 6)\<rparr>
       = (- 6, False, \<lparr>s_initialized = True, fs = broken_store (- 6)\<rparr>
                       \<lparr>fs := broken_store (- 6)\<lparr>store_opens := 1\<rparr>\<rparr>)"
proof -
  have a: "s_initialized \<lparr>s_initialized = True, fs = broken_store (- 6)\<rparr>"
    by simp
  have b: "settings_file_open (store_env True)
             (fs \<lparr>s_initialized = True, fs = broken_store (- 6)\<rparr>)
           = (- 6, broken_store (- 6)\<lparr>store_opens := 1\<rparr>)"
    by (simp add: broken_store_open)
  have c: "FAILED (- 6)"
    by (simp add: FAILED_def)
  show ?thesis
    using a b c
      backing_store_status_returned [OF a b, where key = "c_string ''clock24h''"
        and key_len = 9 and val_out = "[0]" and val_len = 1 and is_dirty_out = False]
    by blast
qed

text \<open>
  C4 as stated fails for get\_dirty\_list: two opens that fail with different causes both
  give the empty list, which is also the answer of a store that opens and holds nothing.
\<close>

theorem failed_open_get_dirty_list_drops_cause:
  "FAILED (fst (settings_file_open (store_env True) (broken_store (- 6))))
   \<and> FAILED (fst (settings_file_open (store_env True) (broken_store (- 1))))
   \<and> fst (settings_file_open (store_env True) (broken_store (- 6)))
       \<noteq> fst (settings_file_open (store_env True) (broken_store (- 1)))
   \<and> fst (settings_blob_db_get_dirty_list (store_env True)
            \<lparr>s_initialized = True, fs = broken_store (- 6)\<rparr>) = []
   \<and> fst (settings_blob_db_get_dirty_list (store_env True)
            \<lparr>s_initialized = True, fs = broken_store (- 1)\<rparr>) = []
   \<and> fst (settings_blob_db_get_dirty_list (store_env True)
            \<lparr>s_initialized = True, fs = empty_store\<rparr>) = []"
  by (simp add: settings_blob_db_get_dirty_list_def broken_store_open empty_store_open
      empty_store_infos FAILED_def)

section \<open>The iteration and its two visitors\<close>

lemma get_key_whole: "get_key info (info_key_len info) = info_key info"
  by (simp add: get_key_def info_key_len_def)

lemma take_info_key_len: "take (nat (info_key_len info)) (info_key info) = info_key info"
  by (simp add: info_key_len_def)

lemma is_dirty_callback_eq:
  "is_dirty_callback h info ctx =
     (if dirty_whitelisted h info then (False, ctx\<lparr>found_dirty := True\<rparr>) else (True, ctx))"
  by (simp add: is_dirty_callback_def dirty_whitelisted_def get_key_whole)

lemma is_dirty_each:
  "settings_file_each (is_dirty_callback h) ctx infos =
     (if \<exists>info \<in> set infos. dirty_whitelisted h info then ctx\<lparr>found_dirty := True\<rparr> else ctx)"
  by (induction infos arbitrary: ctx) (simp_all add: is_dirty_callback_eq)

lemma is_dirty_each_counting:
  "fst (settings_file_each (counting (is_dirty_callback h)) (n, ctx) infos) =
     n + length (takeWhile (\<lambda>info. \<not> dirty_whitelisted h info) infos)
       + (if \<exists>info \<in> set infos. dirty_whitelisted h info then 1 else 0)"
  by (induction infos arbitrary: n ctx) (simp_all add: is_dirty_callback_eq counting_def)

lemma build_dirty_list_callback_eq:
  "prv_build_dirty_list_callback h info ctx =
     (True, if dirty_whitelisted h info
            then ctx\<lparr>dirty_list := dirty_list ctx @ [dirty_item_of info]\<rparr> else ctx)"
  by (simp add: prv_build_dirty_list_callback_def dirty_whitelisted_def get_key_whole
      dirty_item_of_def take_info_key_len Let_def)

lemma build_dirty_list_each:
  "settings_file_each (prv_build_dirty_list_callback h) ctx infos =
     ctx\<lparr>dirty_list := dirty_list ctx @ map dirty_item_of (filter (dirty_whitelisted h) infos)\<rparr>"
  by (induction infos arbitrary: ctx) (simp_all add: build_dirty_list_callback_eq)

lemma item_key_dirty_item_of: "item_key \<circ> dirty_item_of = info_key"
  by (rule ext) (simp add: dirty_item_of_def)

lemma sample_store_open:
  "settings_file_open (store_env h) sample_store = (0, sample_store\<lparr>store_opens := 1\<rparr>)"
  by (simp add: store_env_simps store_open_def sample_store_def empty_store_def)

lemma sample_store_infos:
  "settings_file_records (store_env h) (sample_store\<lparr>store_opens := n\<rparr>) =
     [\<lparr>info_last_modified = 5, info_key = c_string ''btAddress'', info_dirty = True\<rparr>,
      \<lparr>info_last_modified = 7, info_key = c_string ''clock24h'', info_dirty = True\<rparr>,
      \<lparr>info_last_modified = 9, info_key = c_string ''textStyle'', info_dirty = False\<rparr>,
      \<lparr>info_last_modified = 11, info_key = c_string ''watchface'', info_dirty = True\<rparr>]"
  by (simp add: store_env_simps store_infos_def sample_store_def sample_records_def
      record_info_def)

lemma sample_dirty_whitelisted:
  "\<not> dirty_whitelisted h \<lparr>info_last_modified = 5, info_key = c_string ''btAddress'', info_dirty = True\<rparr>"
  "dirty_whitelisted h \<lparr>info_last_modified = 7, info_key = c_string ''clock24h'', info_dirty = True\<rparr>"
  "\<not> dirty_whitelisted h \<lparr>info_last_modified = 9, info_key = c_string ''textStyle'', info_dirty = False\<rparr>"
  "dirty_whitelisted h \<lparr>info_last_modified = 11, info_key = c_string ''watchface'', info_dirty = True\<rparr>"
proof -
  have l: "int (length (c_string ''btAddress'')) = 10" "int (length (c_string ''clock24h'')) = 9"
    "int (length (c_string ''watchface'')) = 10"
    by (simp_all add: c_string_def)
  show "\<not> dirty_whitelisted h \<lparr>info_last_modified = 5, info_key = c_string ''btAddress'', info_dirty = True\<rparr>"
    by (simp add: dirty_whitelisted_def info_key_len_def l btAddress_not_syncable)
  show "dirty_whitelisted h \<lparr>info_last_modified = 7, info_key = c_string ''clock24h'', info_dirty = True\<rparr>"
    by (simp add: dirty_whitelisted_def info_key_len_def l clock24h_syncable)
  show "\<not> dirty_whitelisted h \<lparr>info_last_modified = 9, info_key = c_string ''textStyle'', info_dirty = False\<rparr>"
    by (simp add: dirty_whitelisted_def)
  show "dirty_whitelisted h \<lparr>info_last_modified = 11, info_key = c_string ''watchface'', info_dirty = True\<rparr>"
    by (simp add: dirty_whitelisted_def info_key_len_def l watchface_syncable)
qed

text \<open>
  C1. On an initialized store whose file opens, is\_dirty succeeds and reports true exactly
  when the iteration holds a record that is dirty and whitelisted; a dirty record outside
  the whitelist does not count. The visitor is called on the records before the first dirty
  whitelisted one and on that one, and on no record after it.
\<close>

theorem is_dirty_iff_dirty_whitelisted_record:
  assumes "s_initialized st"
    and "settings_file_open env (fs st) = (status, file)"
    and "\<not> FAILED status"
  shows "settings_blob_db_is_dirty env is_dirty_out st =
           (S_SUCCESS,
            (\<exists>info \<in> set (settings_file_records env file).
               info_dirty info \<and>
               prv_is_syncable (CAPABILITY_HAS_HEALTH_TRACKING env) (info_key info)
                 (info_key_len info)),
            st\<lparr>fs := settings_file_close env file\<rparr>)
       \<and> fst (settings_file_each (counting (is_dirty_callback (CAPABILITY_HAS_HEALTH_TRACKING env)))
                (0, \<lparr>found_dirty = False\<rparr>) (settings_file_records env file))
           = length (takeWhile (\<lambda>info. \<not> dirty_whitelisted (CAPABILITY_HAS_HEALTH_TRACKING env) info)
                       (settings_file_records env file))
             + (if \<exists>info \<in> set (settings_file_records env file).
                      dirty_whitelisted (CAPABILITY_HAS_HEALTH_TRACKING env) info
                then 1 else 0)"
proof -
  have "settings_blob_db_is_dirty env is_dirty_out st =
          (S_SUCCESS,
           (\<exists>info \<in> set (settings_file_records env file).
              dirty_whitelisted (CAPABILITY_HAS_HEALTH_TRACKING env) info),
           st\<lparr>fs := settings_file_close env file\<rparr>)"
    using assms by (simp add: settings_blob_db_is_dirty_def is_dirty_each)
  then show ?thesis
    by (simp add: is_dirty_each_counting) (simp add: dirty_whitelisted_def)
qed

theorem is_dirty_iff_dirty_whitelisted_record_witness:
  "s_initialized \<lparr>s_initialized = True, fs = sample_store\<rparr>
   \<and> settings_file_open (store_env True) (fs \<lparr>s_initialized = True, fs = sample_store\<rparr>)
       = (0, sample_store\<lparr>store_opens := 1\<rparr>)
   \<and> \<not> FAILED 0
   \<and> settings_blob_db_is_dirty (store_env True) False \<lparr>s_initialized = True, fs = sample_store\<rparr>
       = (S_SUCCESS, True,
          \<lparr>s_initialized = True, fs = sample_store\<lparr>store_opens := 1, store_closes := 1\<rparr>\<rparr>)
   \<and> fst (settings_file_each (counting (is_dirty_callback True)) (0, \<lparr>found_dirty = False\<rparr>)
            (settings_file_records (store_env True) (sample_store\<lparr>store_opens := 1\<rparr>))) = 2"
proof -
  have a: "s_initialized \<lparr>s_initialized = True, fs = sample_store\<rparr>"
    by simp
  have b: "settings_file_open (store_env True) (fs \<lparr>s_initialized = True, fs = sample_store\<rparr>)
             = (0, sample_store\<lparr>store_opens := 1\<rparr>)"
    by (simp add: sample_store_open)
  have c: "\<not> FAILED 0"
    by (simp add: FAILED_def)
  have d: "settings_file_close (store_env True) (sample_store\<lparr>store_opens := n\<rparr>)
             = sample_store\<lparr>store_opens := n, store_closes := 1\<rparr>" for n
    by (simp add: store_env_simps store_close_def sample_store_def empty_store_def)
  from is_dirty_iff_dirty_whitelisted_record [OF a b c, of False]
  have "settings_blob_db_is_dirty (store_env True) False \<lparr>s_initialized = True, fs = sample_store\<rparr>
       = (S_SUCCESS, True,
          \<lparr>s_initialized = True, fs = sample_store\<lparr>store_opens := 1, store_closes := 1\<rparr>\<rparr>)
   \<and> fst (settings_file_each (counting (is_dirty_callback True)) (0, \<lparr>found_dirty = False\<rparr>)
            (settings_file_records (store_env True) (sample_store\<lparr>store_opens := 1\<rparr>))) = 2"
    by (simp add: store_env_simps(1) d sample_store_infos sample_dirty_whitelisted
        sample_dirty_whitelisted [unfolded dirty_whitelisted_def, simplified])
  with a b c show ?thesis by blast
qed

text \<open>
  C2. On an initialized store whose file opens, get\_dirty\_list returns one Dirty Item for
  each record that is dirty and whitelisted and for no other, in the order of the
  iteration; each item carries the record's key, the key's length and the record's
  last-modified time. When the keys of the records differ from each other, so do the keys of
  the items.
\<close>

theorem dirty_list_is_dirty_whitelisted_records:
  assumes "s_initialized st"
    and "settings_file_open env (fs st) = (status, file)"
    and "\<not> FAILED status"
  shows "settings_blob_db_get_dirty_list env st =
           (map dirty_item_of
              (filter (dirty_whitelisted (CAPABILITY_HAS_HEALTH_TRACKING env))
                 (settings_file_records env file)),
            st\<lparr>fs := settings_file_close env file\<rparr>)
       \<and> (distinct (map info_key (settings_file_records env file)) \<longrightarrow>
            distinct (map item_key (fst (settings_blob_db_get_dirty_list env st))))"
proof -
  have eq: "settings_blob_db_get_dirty_list env st =
           (map dirty_item_of
              (filter (dirty_whitelisted (CAPABILITY_HAS_HEALTH_TRACKING env))
                 (settings_file_records env file)),
            st\<lparr>fs := settings_file_close env file\<rparr>)"
    using assms by (simp add: settings_blob_db_get_dirty_list_def build_dirty_list_each)
  show ?thesis
    unfolding eq by (simp add: item_key_dirty_item_of distinct_map_filter)
qed

theorem dirty_list_is_dirty_whitelisted_records_witness:
  "s_initialized \<lparr>s_initialized = True, fs = sample_store\<rparr>
   \<and> settings_file_open (store_env True) (fs \<lparr>s_initialized = True, fs = sample_store\<rparr>)
       = (0, sample_store\<lparr>store_opens := 1\<rparr>)
   \<and> \<not> FAILED 0
   \<and> distinct (map info_key (settings_file_records (store_env True)
                  (sample_store\<lparr>store_opens := 1\<rparr>)))
   \<and> settings_blob_db_get_dirty_list (store_env True) \<lparr>s_initialized = True, fs = sample_store\<rparr>
       = ([\<lparr>item_last_updated = 7, item_key_len = 9, item_key = c_string ''clock24h''\<rparr>,
           \<lparr>item_last_updated = 11, item_key_len = 10, item_key = c_string ''watchface''\<rparr>],
          \<lparr>s_initialized = True, fs = sample_store\<lparr>store_opens := 1, store_closes := 1\<rparr>\<rparr>)
   \<and> distinct (map item_key (fst (settings_blob_db_get_dirty_list (store_env True)
         \<lparr>s_initialized = True, fs = sample_store\<rparr>)))"
proof -
  have a: "s_initialized \<lparr>s_initialized = True, fs = sample_store\<rparr>"
    by simp
  have b: "settings_file_open (store_env True) (fs \<lparr>s_initialized = True, fs = sample_store\<rparr>)
             = (0, sample_store\<lparr>store_opens := 1\<rparr>)"
    by (simp add: sample_store_open)
  have c: "\<not> FAILED 0"
    by (simp add: FAILED_def)
  have d: "settings_file_close (store_env True) (sample_store\<lparr>store_opens := n\<rparr>)
             = sample_store\<lparr>store_opens := n, store_closes := 1\<rparr>" for n
    by (simp add: store_env_simps store_close_def sample_store_def empty_store_def)
  have e: "distinct (map info_key (settings_file_records (store_env True)
                  (sample_store\<lparr>store_opens := 1\<rparr>)))"
    by (simp add: sample_store_infos c_string_def)
  note t = dirty_list_is_dirty_whitelisted_records [OF a b c]
  from t [THEN conjunct1]
  have f: "settings_blob_db_get_dirty_list (store_env True) \<lparr>s_initialized = True, fs = sample_store\<rparr>
       = ([\<lparr>item_last_updated = 7, item_key_len = 9, item_key = c_string ''clock24h''\<rparr>,
           \<lparr>item_last_updated = 11, item_key_len = 10, item_key = c_string ''watchface''\<rparr>],
          \<lparr>s_initialized = True, fs = sample_store\<lparr>store_opens := 1, store_closes := 1\<rparr>\<rparr>)"
    by (simp add: store_env_simps(1) d sample_store_infos sample_dirty_whitelisted
        dirty_item_of_def info_key_len_def) (simp add: c_string_def)
  from t [THEN conjunct2] e
  have g: "distinct (map item_key (fst (settings_blob_db_get_dirty_list (store_env True)
         \<lparr>s_initialized = True, fs = sample_store\<rparr>)))"
    by blast
  from a b c e f g show ?thesis by blast
qed

section \<open>The modelled record store\<close>

lemma find_upsert:
  "find (\<lambda>x. rec_key x = rec_key r) (upsert r xs) = Some r"
  by (induction xs) simp_all

lemma in_set_upsert: "r \<in> set (upsert r xs)"
  by (induction xs) simp_all

lemma map_rec_key_upsert:
  "map rec_key (upsert r xs) =
     (if rec_key r \<in> rec_key ` set xs then map rec_key xs else map rec_key xs @ [rec_key r])"
  by (induction xs) auto

lemma store_infos_keys: "map info_key (store_infos s) = map rec_key (store_records s)"
  by (simp add: store_infos_def record_info_def)

lemma store_wf_open: "store_wf (snd (store_open s)) = store_wf s"
  by (simp add: store_wf_def store_open_def)

lemma store_wf_close: "store_wf (store_close s) = store_wf s"
  by (simp add: store_wf_def store_close_def)

lemma store_wf_set: "store_wf s \<Longrightarrow> store_wf (snd (store_set key key_len val val_len s))"
  by (simp add: store_wf_def store_set_def map_rec_key_upsert)

lemma store_wf_delete: "store_wf s \<Longrightarrow> store_wf (snd (store_delete key key_len s))"
  by (simp add: store_wf_def store_delete_def distinct_map_filter split: option.splits)

lemma store_wf_mark_synced: "store_wf s \<Longrightarrow> store_wf (snd (store_mark_synced key key_len s))"
proof -
  have c: "rec_key \<circ> (\<lambda>x. if rec_key x = k then x\<lparr>rec_dirty := False\<rparr> else x) = rec_key"
    for k
    by (rule ext) simp
  show "store_wf s \<Longrightarrow> store_wf (snd (store_mark_synced key key_len s))"
    by (simp add: store_wf_def store_mark_synced_def c split: option.splits)
qed

lemma store_wf_operations:
  assumes "store_wf (fs st)"
  shows "\<And>status st'. settings_blob_db_insert (store_env h) key key_len val val_len st
                           = Inr (status, st') \<Longrightarrow> store_wf (fs st')"
    and "store_wf (fs (snd (settings_blob_db_delete (store_env h) key key_len st)))"
    and "store_wf (fs (snd (settings_blob_db_mark_synced (store_env h) key key_len st)))"
    and "store_wf (fs (snd (snd (settings_blob_db_read (store_env h) key key_len val_out val_len st))))"
    and "store_wf (fs (snd (settings_blob_db_get_len (store_env h) key key_len st)))"
    and "store_wf (fs (snd (settings_blob_db_get_dirty_list (store_env h) st)))"
    and "store_wf (fs (snd (snd (settings_blob_db_is_dirty (store_env h) is_dirty_out st))))"
proof -
  have o: "settings_file_open (store_env h) (fs st) = (store_open_status (fs st), snd (store_open (fs st)))"
    by (simp add: store_env_simps store_open_def)
  have w: "store_wf (snd (store_open (fs st)))"
    using assms by (simp add: store_wf_open)
  show "\<And>status st'. settings_blob_db_insert (store_env h) key key_len val val_len st
                          = Inr (status, st') \<Longrightarrow> store_wf (fs st')"
    using assms w
    by (auto simp: settings_blob_db_insert_def o store_env_simps(1,3,4) split_beta store_wf_close
        store_wf_set Let_def split: if_splits)
  show "store_wf (fs (snd (settings_blob_db_delete (store_env h) key key_len st)))"
    using assms w
    by (simp add: settings_blob_db_delete_def o store_env_simps(1,3,7) split_beta store_wf_close
        store_wf_delete)
  show "store_wf (fs (snd (settings_blob_db_mark_synced (store_env h) key key_len st)))"
    using assms w
    by (simp add: settings_blob_db_mark_synced_def o store_env_simps(1,3,8) split_beta
        store_wf_close store_wf_mark_synced)
  show "store_wf (fs (snd (snd (settings_blob_db_read (store_env h) key key_len val_out val_len st))))"
    using assms w
    by (simp add: settings_blob_db_read_def o store_env_simps(1,3,6) split_beta store_wf_close
        store_get_def split: option.splits)
  show "store_wf (fs (snd (settings_blob_db_get_len (store_env h) key key_len st)))"
    using assms w
    by (simp add: settings_blob_db_get_len_def o store_env_simps(1,3,5) split_beta store_wf_close
        store_get_len_def split: option.splits)
  show "store_wf (fs (snd (settings_blob_db_get_dirty_list (store_env h) st)))"
    using assms w
    by (simp add: settings_blob_db_get_dirty_list_def o store_env_simps(1,3) store_wf_close
        Let_def)
  show "store_wf (fs (snd (snd (settings_blob_db_is_dirty (store_env h) is_dirty_out st))))"
    using assms w
    by (simp add: settings_blob_db_is_dirty_def o store_env_simps(1,3) store_wf_close Let_def)
qed

lemma store_wf_distinct_infos:
  "store_wf s \<Longrightarrow> distinct (map info_key (settings_file_records (store_env h) (snd (store_open s))))"
  by (simp add: store_env_simps store_infos_keys store_wf_def store_open_def)

lemma insert_success:
  assumes "settings_blob_db_insert (store_env h) key key_len val val_len st
             = Inr (S_SUCCESS, st')"
  shows "s_initialized st"
    and "prv_is_syncable h key key_len"
    and "\<not> FAILED (store_open_status (fs st))"
    and "st' = st\<lparr>fs := store_close (snd (store_set key key_len val val_len (snd (store_open (fs st)))))\<rparr>"
  using assms
  by (auto simp: settings_blob_db_insert_def store_env_simps store_open_def FAILED_def
      S_SUCCESS_def E_INTERNAL_def E_INVALID_OPERATION_def split_beta Let_def
      split: if_splits)

lemma insert_clock24h:
  "settings_blob_db_insert (store_env True) (c_string ''clock24h'') 9 [1] 1
     \<lparr>s_initialized = True, fs = empty_store\<rparr> = Inr (S_SUCCESS, after_insert)"
proof -
  have k: "take 9 (c_string ''clock24h'') = c_string ''clock24h''"
    by (simp add: c_string_def)
  show ?thesis
    by (simp add: settings_blob_db_insert_def store_env_simps clock24h_syncable empty_store_open
        [unfolded store_env_simps] FAILED_def store_set_def store_close_def k after_insert_def
        clock24h_record_def)
       (simp add: empty_store_def)
qed

text \<open>
  C6. On the modelled record store, after a successful insert of a key with a value, a
  read of the same key succeeds and delivers the value; the dirty list holds an item with
  the key; and the store holds the record with its dirty flag set. A successful insert is
  one of a whitelisted key on an initialized store whose file opens.
\<close>

theorem insert_then_read_and_dirty_list:
  assumes "settings_blob_db_insert (store_env h) key key_len val val_len st
             = Inr (S_SUCCESS, st')"
  shows "fst (settings_blob_db_read (store_env h) key key_len val_out val_len st') = S_SUCCESS
       \<and> fst (snd (settings_blob_db_read (store_env h) key key_len val_out val_len st'))
           = take (nat val_len) val
       \<and> (\<exists>item \<in> set (fst (settings_blob_db_get_dirty_list (store_env h) st')).
             item_key item = take (nat key_len) key \<and> item_key_len item = key_len)
       \<and> (\<exists>r \<in> set (store_records (fs st')).
             rec_key r = take (nat key_len) key \<and> rec_val r = take (nat val_len) val
             \<and> rec_dirty r)"
proof -
  note s = insert_success [OF assms]
  define r where "r = \<lparr>rec_key = take (nat key_len) key, rec_val = take (nat val_len) val,
                       rec_last_modified = store_time (fs st), rec_dirty = True\<rparr>"
  have recs: "store_records (fs st') = upsert r (store_records (fs st))"
    by (simp add: s(4) store_close_def store_set_def store_open_def r_def)
  have status: "store_open_status (fs st') = store_open_status (fs st)"
    by (simp add: s(4) store_close_def store_set_def store_open_def)
  have init: "s_initialized st'"
    using s(1) by (simp add: s(4))
  have nf: "\<not> FAILED (store_open_status (fs st'))"
    using s(3) by (simp add: status)
  have key: "rec_key r = take (nat key_len) key" by (simp add: r_def)
  have found: "store_find (take (nat key_len) key) (snd (store_open (fs st'))) = Some r"
    using find_upsert [of r "store_records (fs st)"]
    by (simp add: store_find_def store_open_def recs key)
  have read: "settings_blob_db_read (store_env h) key key_len val_out val_len st'
         = (S_SUCCESS, take (nat val_len) val,
            st'\<lparr>fs := store_close (snd (store_open (fs st')))\<rparr>)"
    using init nf found
    by (simp add: settings_blob_db_read_def store_env_simps store_get_def split_beta r_def)
       (simp add: store_open_def)
  have mem: "r \<in> set (store_records (fs st'))"
    by (simp add: recs in_set_upsert)
  have dw: "dirty_whitelisted h (record_info r)"
    using syncable_take [OF s(2)]
    by (simp add: dirty_whitelisted_def record_info_def info_key_len_def r_def)
  have opn: "settings_file_open (store_env h) (fs st')
               = (store_open_status (fs st'), snd (store_open (fs st')))"
    by (simp add: store_env_simps store_open_def)
  have list: "fst (settings_blob_db_get_dirty_list (store_env h) st')
         = map dirty_item_of (filter (dirty_whitelisted h) (store_infos (fs st')))"
    using init nf
    by (simp add: settings_blob_db_get_dirty_list_def opn build_dirty_list_each store_env_simps
        store_infos_def store_open_def)
  have "dirty_item_of (record_info r)
          \<in> set (fst (settings_blob_db_get_dirty_list (store_env h) st'))"
    using mem dw by (simp add: list store_infos_def)
  moreover have "item_key (dirty_item_of (record_info r)) = take (nat key_len) key"
    by (simp add: dirty_item_of_def record_info_def r_def)
  moreover have "item_key_len (dirty_item_of (record_info r)) = key_len"
    using syncable_take(2) [OF s(2)]
    by (simp add: dirty_item_of_def record_info_def info_key_len_def r_def)
  ultimately have item: "\<exists>item \<in> set (fst (settings_blob_db_get_dirty_list (store_env h) st')).
             item_key item = take (nat key_len) key \<and> item_key_len item = key_len"
    by blast
  have rec: "\<exists>r \<in> set (store_records (fs st')).
             rec_key r = take (nat key_len) key \<and> rec_val r = take (nat val_len) val
             \<and> rec_dirty r"
    using mem by (rule bexI [rotated]) (simp add: r_def)
  show ?thesis
    using item rec by (simp add: read)
qed

theorem insert_then_read_and_dirty_list_witness:
  "settings_blob_db_insert (store_env True) (c_string ''clock24h'') 9 [1] 1
     \<lparr>s_initialized = True, fs = empty_store\<rparr> = Inr (S_SUCCESS, after_insert)
   \<and> fst (settings_blob_db_read (store_env True) (c_string ''clock24h'') 9 [0] 1 after_insert)
       = S_SUCCESS
   \<and> fst (snd (settings_blob_db_read (store_env True) (c_string ''clock24h'') 9 [0] 1
                 after_insert)) = [1]
   \<and> (\<exists>item \<in> set (fst (settings_blob_db_get_dirty_list (store_env True) after_insert)).
         item_key item = c_string ''clock24h'' \<and> item_key_len item = 9)
   \<and> (\<exists>r \<in> set (store_records (fs after_insert)).
         rec_key r = c_string ''clock24h'' \<and> rec_val r = [1] \<and> rec_dirty r)"
proof -
  have k: "take (nat 9) (c_string ''clock24h'') = c_string ''clock24h''"
    by (simp add: c_string_def)
  have v: "take (nat 1) [1::byte] = [1]"
    by simp
  note t = insert_then_read_and_dirty_list [OF insert_clock24h, of "[0]", unfolded k v]
  show ?thesis using insert_clock24h t by blast
qed

lemma find_btAddress:
  "store_find (take (nat 10) (c_string ''btAddress'')) sample_store
     = Some \<lparr>rec_key = c_string ''btAddress'', rec_val = [1, 2, 3], rec_last_modified = 5,
             rec_dirty = True\<rparr>"
  by (simp add: store_find_def sample_store_def sample_records_def c_string_def)

text \<open>
  C7. On the modelled record store, initialized and with a file that opens, read and
  get\_len consult no whitelist: for a key the store holds they succeed, read with the value
  and get\_len with its length, whether the key is whitelisted or not; for a key the store
  does not hold they answer the store's not-found status.
\<close>

theorem read_not_whitelist_gated:
  assumes "s_initialized st"
    and "\<not> FAILED (store_open_status (fs st))"
  shows "case store_find (take (nat key_len) key) (fs st) of
           Some r \<Rightarrow>
             settings_blob_db_read (store_env h) key key_len val_out val_len st
               = (S_SUCCESS, take (nat val_len) (rec_val r),
                  st\<lparr>fs := store_close (snd (store_open (fs st)))\<rparr>)
             \<and> settings_blob_db_get_len (store_env h) key key_len st
               = (int (length (rec_val r)), st\<lparr>fs := store_close (snd (store_open (fs st)))\<rparr>)
         | None \<Rightarrow>
             settings_blob_db_read (store_env h) key key_len val_out val_len st
               = (E_DOES_NOT_EXIST, val_out, st\<lparr>fs := store_close (snd (store_open (fs st)))\<rparr>)
             \<and> settings_blob_db_get_len (store_env h) key key_len st
               = (E_DOES_NOT_EXIST, st\<lparr>fs := store_close (snd (store_open (fs st)))\<rparr>)"
proof -
  have f: "store_find k (snd (store_open s)) = store_find k s" for k s
    by (simp add: store_find_def store_open_def)
  show ?thesis
    using assms
    by (cases "store_find (take (nat key_len) key) (fs st)")
       (simp_all add: settings_blob_db_read_def settings_blob_db_get_len_def store_env_simps
        store_get_def store_get_len_def f split_beta, simp_all add: store_open_def)
qed

theorem read_not_whitelist_gated_witness:
  "s_initialized \<lparr>s_initialized = True, fs = sample_store\<rparr>
   \<and> \<not> FAILED (store_open_status (fs \<lparr>s_initialized = True, fs = sample_store\<rparr>))
   \<and> \<not> prv_is_syncable True (c_string ''btAddress'') 10
   \<and> fst (settings_blob_db_read (store_env True) (c_string ''btAddress'') 10 [0, 0, 0] 3
        \<lparr>s_initialized = True, fs = sample_store\<rparr>) = S_SUCCESS
   \<and> fst (snd (settings_blob_db_read (store_env True) (c_string ''btAddress'') 10 [0, 0, 0] 3
        \<lparr>s_initialized = True, fs = sample_store\<rparr>)) = [1, 2, 3]
   \<and> fst (settings_blob_db_get_len (store_env True) (c_string ''btAddress'') 10
        \<lparr>s_initialized = True, fs = sample_store\<rparr>) = 3"
proof -
  have a: "s_initialized \<lparr>s_initialized = True, fs = sample_store\<rparr>"
    by simp
  have b: "\<not> FAILED (store_open_status (fs \<lparr>s_initialized = True, fs = sample_store\<rparr>))"
    by (simp add: FAILED_def sample_store_def empty_store_def)
  have c: "fs \<lparr>s_initialized = True, fs = sample_store\<rparr> = sample_store"
    by simp
  note t = read_not_whitelist_gated [OF a b, where key_len = 10
      and key = "c_string ''btAddress''" and h = True and val_out = "[0, 0, 0]" and val_len = 3,
      unfolded c find_btAddress]
  from t have "fst (settings_blob_db_read (store_env True) (c_string ''btAddress'') 10 [0, 0, 0] 3
        \<lparr>s_initialized = True, fs = sample_store\<rparr>) = S_SUCCESS
   \<and> fst (snd (settings_blob_db_read (store_env True) (c_string ''btAddress'') 10 [0, 0, 0] 3
        \<lparr>s_initialized = True, fs = sample_store\<rparr>)) = [1, 2, 3]
   \<and> fst (settings_blob_db_get_len (store_env True) (c_string ''btAddress'') 10
        \<lparr>s_initialized = True, fs = sample_store\<rparr>) = 3"
    by simp
  with a b btAddress_not_syncable [of True] show ?thesis by blast
qed

section \<open>The connection handler and the trigger\<close>

lemma connection_handler_step:
  "prv_connection_handler blob_db_sync_db event st =
     (if is_open event
      then st\<lparr>s_is_connected := True,
              sync_world := snd (blob_db_sync_db BlobDBIdSettings (sync_world st))\<rparr>
      else st\<lparr>s_is_connected := False\<rparr>)"
  by (simp add: prv_connection_handler_def split_beta)

text \<open>After a run of events the recording engine has one call for each event that was open.\<close>

lemma deliver_events_calls:
  "s_event_subscribed st \<Longrightarrow>
   sync_world (deliver_events (recording_sync_db result) events st) =
     sync_world st @ replicate (length (filter is_open events)) BlobDBIdSettings"
proof (induction events arbitrary: st)
  case Nil
  show ?case by simp
next
  case (Cons event events)
  let ?st = "prv_connection_handler (recording_sync_db result) event st"
  have sub: "s_event_subscribed ?st"
    using Cons.prems by (simp add: connection_handler_step)
  have "sync_world (deliver_events (recording_sync_db result) (event # events) st) =
          sync_world ?st @ replicate (length (filter is_open events)) BlobDBIdSettings"
    using Cons.prems Cons.IH [OF sub] by simp
  also have "sync_world ?st =
          sync_world st @ (if is_open event then [BlobDBIdSettings] else [])"
    by (simp add: connection_handler_step recording_sync_db_def)
  finally show ?case by (simp add: replicate_app_Cons_same)
qed

text \<open>
  C5, as amended. The connection handler stores the event's flag as the connection state
  and calls the Sync Engine once, for the Settings store id, exactly when the event reports
  the session open, whatever the connection state was before: on every entry into
  Connected, and also on a connect event that arrives while already Connected. A disconnect
  event changes the connection state and nothing else. Over a run of events delivered to
  the subscribed handler, the engine is called once for each event that reports the session
  open.
\<close>

theorem connection_handler_syncs_iff_open:
  "prv_connection_handler blob_db_sync_db event st =
     (if is_open event
      then st\<lparr>s_is_connected := True,
              sync_world := snd (blob_db_sync_db BlobDBIdSettings (sync_world st))\<rparr>
      else st\<lparr>s_is_connected := False\<rparr>)
   \<and> (s_event_subscribed st' \<longrightarrow>
        sync_world (deliver_events (recording_sync_db result) events st') =
          sync_world st' @ replicate (length (filter is_open events)) BlobDBIdSettings)"
  by (simp add: connection_handler_step deliver_events_calls)

theorem connection_handler_syncs_iff_open_witness:
  "s_event_subscribed disconnected_state
   \<and> prv_connection_handler (recording_sync_db S_SUCCESS) \<lparr>is_open = True\<rparr> disconnected_state
       = connected_state\<lparr>sync_world := [BlobDBIdSettings]\<rparr>
   \<and> prv_connection_handler (recording_sync_db S_SUCCESS) \<lparr>is_open = False\<rparr> connected_state
       = disconnected_state
   \<and> sync_world (deliver_events (recording_sync_db S_SUCCESS)
         [\<lparr>is_open = True\<rparr>, \<lparr>is_open = False\<rparr>, \<lparr>is_open = False\<rparr>, \<lparr>is_open = True\<rparr>]
         disconnected_state) = [BlobDBIdSettings, BlobDBIdSettings]"
proof -
  have a: "s_event_subscribed disconnected_state"
    by (simp add: disconnected_state_def)
  note t = connection_handler_syncs_iff_open [where st' = disconnected_state
      and result = S_SUCCESS and blob_db_sync_db = "recording_sync_db S_SUCCESS"]
  from t [where event = "\<lparr>is_open = True\<rparr>" and st = disconnected_state, THEN conjunct1]
  have b: "prv_connection_handler (recording_sync_db S_SUCCESS) \<lparr>is_open = True\<rparr>
             disconnected_state = connected_state\<lparr>sync_world := [BlobDBIdSettings]\<rparr>"
    by (simp add: recording_sync_db_def disconnected_state_def connected_state_def)
  from t [where event = "\<lparr>is_open = False\<rparr>" and st = connected_state, THEN conjunct1]
  have c: "prv_connection_handler (recording_sync_db S_SUCCESS) \<lparr>is_open = False\<rparr>
             connected_state = disconnected_state"
    by (simp add: disconnected_state_def connected_state_def)
  from t [where events = "[\<lparr>is_open = True\<rparr>, \<lparr>is_open = False\<rparr>, \<lparr>is_open = False\<rparr>,
                           \<lparr>is_open = True\<rparr>]", THEN conjunct2] a
  have d: "sync_world (deliver_events (recording_sync_db S_SUCCESS)
         [\<lparr>is_open = True\<rparr>, \<lparr>is_open = False\<rparr>, \<lparr>is_open = False\<rparr>, \<lparr>is_open = True\<rparr>]
         disconnected_state) = [BlobDBIdSettings, BlobDBIdSettings]"
    by (simp add: disconnected_state_def)
  from a b c d show ?thesis by blast
qed

text \<open>
  C5 as stated fails: a connect event that arrives while already Connected does call the
  Sync Engine for the Settings store id. Two connect events in a row, from Disconnected,
  enter Connected once and call the engine twice.
\<close>

theorem connect_event_while_connected_syncs:
  "s_is_connected connected_state
   \<and> sync_world (prv_connection_handler (recording_sync_db S_SUCCESS) \<lparr>is_open = True\<rparr>
                   connected_state) = [BlobDBIdSettings]
   \<and> \<not> s_is_connected disconnected_state
   \<and> sync_world (deliver_events (recording_sync_db S_SUCCESS)
                   [\<lparr>is_open = True\<rparr>, \<lparr>is_open = True\<rparr>] disconnected_state)
       = [BlobDBIdSettings, BlobDBIdSettings]"
  by (simp add: prv_connection_handler_def recording_sync_db_def connected_state_def
      disconnected_state_def)

text \<open>
  C9. \<open>prefs_sync_trigger\<close>, when not initialized or not connected, returns the state it
  was given, for every Sync Engine: no call of the engine, and nothing the engine could
  reach, the dirty flags among it, has changed. When initialized and connected it calls the
  Sync Engine once for the Settings store id, and the state after it is the state the
  connection handler leaves on a connect event.
\<close>

theorem trigger_guarded:
  "(\<not> s_sync_initialized st \<or> \<not> s_is_connected st \<longrightarrow>
      prefs_sync_trigger blob_db_sync_db st = st)
   \<and> (s_sync_initialized st \<and> s_is_connected st \<longrightarrow>
      prefs_sync_trigger blob_db_sync_db st
        = st\<lparr>sync_world := snd (blob_db_sync_db BlobDBIdSettings (sync_world st))\<rparr>
      \<and> prefs_sync_trigger blob_db_sync_db st
        = prv_connection_handler blob_db_sync_db \<lparr>is_open = True\<rparr> st)"
  by (auto simp: prefs_sync_trigger_def prv_connection_handler_def split_beta)

theorem trigger_guarded_witness:
  "\<not> s_sync_initialized uninitialized_state
   \<and> prefs_sync_trigger (recording_sync_db S_SUCCESS) uninitialized_state = uninitialized_state
   \<and> \<not> s_is_connected disconnected_state
   \<and> prefs_sync_trigger (recording_sync_db S_SUCCESS) disconnected_state = disconnected_state
   \<and> s_sync_initialized connected_state \<and> s_is_connected connected_state
   \<and> prefs_sync_trigger (recording_sync_db S_SUCCESS) connected_state
       = connected_state\<lparr>sync_world := [BlobDBIdSettings]\<rparr>
   \<and> prefs_sync_trigger (recording_sync_db S_SUCCESS) connected_state
       = prv_connection_handler (recording_sync_db S_SUCCESS) \<lparr>is_open = True\<rparr> connected_state"
proof -
  have a: "\<not> s_sync_initialized uninitialized_state"
    by (simp add: uninitialized_state_def)
  have b: "\<not> s_is_connected disconnected_state"
    by (simp add: disconnected_state_def)
  have c: "s_sync_initialized connected_state \<and> s_is_connected connected_state"
    by (simp add: connected_state_def)
  have w: "snd (recording_sync_db S_SUCCESS BlobDBIdSettings (sync_world connected_state))
             = [BlobDBIdSettings]"
    by (simp add: recording_sync_db_def connected_state_def)
  note t = trigger_guarded [where blob_db_sync_db = "recording_sync_db S_SUCCESS"]
  from a b c t [of uninitialized_state] t [of disconnected_state]
    t [of connected_state, unfolded w]
  show ?thesis by blast
qed

end
